theory Spec2Isabelle
  imports Main "HOL-Library.Multiset" "HOL-Library.Sublist"
begin

section \<open>Strings\<close>

text \<open>
  A Python \<open>str\<close> is a sequence of Unicode code points. The keywords of the classifier
  are Cyrillic, so a string is modelled as the list of its code points, not as bytes.
\<close>

type_synonym codepoint = nat
type_synonym ustr = "codepoint list"

text \<open>An ASCII literal of the source as a code point list.\<close>

definition str :: "string \<Rightarrow> ustr" where
  "str s = map of_char s"

text \<open>
  \<open>word in text\<close> on two strings: \<open>word\<close> occurs in \<open>text\<close> as a contiguous run,
  starting at some position. \<open>startswith\<close> compares at one position, \<open>contains\<close> tries
  every position from the left.
\<close>

fun startswith :: "ustr \<Rightarrow> ustr \<Rightarrow> bool" where
  "startswith cs [] = True"
| "startswith [] (w # ws) = False"
| "startswith (c # cs) (w # ws) = (c = w \<and> startswith cs ws)"

fun contains :: "ustr \<Rightarrow> ustr \<Rightarrow> bool" where
  "contains [] word = (word = [])"
| "contains (c # cs) word = (startswith (c # cs) word \<or> contains cs word)"

text \<open>
  \<open>str.lower\<close> is a builtin of the language, not code of the repository: the classifier
  takes it as the parameter \<open>lower\<close>. \<open>lower_basic\<close> is the instance used to run the
  definitions on concrete inputs: it agrees with \<open>str.lower\<close> on strings of ASCII and of the
  Cyrillic letters U+0400 to U+044F, and leaves every other code point alone.
\<close>

definition lower_cp :: "codepoint \<Rightarrow> codepoint" where
  "lower_cp c =
     (if 65 \<le> c \<and> c \<le> 90 then c + 32
      else if 1040 \<le> c \<and> c \<le> 1071 then c + 32
      else if 1024 \<le> c \<and> c \<le> 1039 then c + 80
      else c)"

definition lower_basic :: "ustr \<Rightarrow> ustr" where
  "lower_basic s = map lower_cp s"

section \<open>The classifier\<close>

text \<open>
  The two keyword lists of \<open>analyze_sentiment\<close>, as code points:
  U+0445 U+043E U+0440 U+043E U+0448 and U+043B U+044E U+0431 U+043B U+044E (positive),
  U+043F U+043B U+043E U+0445 U+043E and U+043D U+0435 U+043D U+0430 U+0432 U+0438 U+0436
  (negative).
\<close>

definition positive_words :: "ustr list" where
  "positive_words = [[1093, 1086, 1088, 1086, 1096], [1083, 1102, 1073, 1083, 1102]]"

definition negative_words :: "ustr list" where
  "negative_words = [[1087, 1083, 1086, 1093, 1086], [1085, 1077, 1085, 1072, 1074, 1080, 1078]]"

definition positive :: ustr where "positive = str ''positive''"
definition negative :: ustr where "negative = str ''negative''"
definition neutral :: ustr where "neutral = str ''neutral''"

definition analyze_sentiment :: "(ustr \<Rightarrow> ustr) \<Rightarrow> ustr \<Rightarrow> ustr" where
  "analyze_sentiment lower text' =
     (let text_lower = lower text' in
      if list_ex (\<lambda>word. contains text_lower word) positive_words then positive
      else if list_ex (\<lambda>word. contains text_lower word) negative_words then negative
      else neutral)"

text \<open>
  The classifier as the specification words it: a text contains a keyword when the
  keyword is a substring of it, \<open>sublist\<close> in the library (some prefix and some suffix
  around it give the text).
\<close>

definition has_keyword :: "ustr list \<Rightarrow> ustr \<Rightarrow> bool" where
  "has_keyword keywords s = (\<exists>word \<in> set keywords. sublist word s)"

definition classify :: "(ustr \<Rightarrow> ustr) \<Rightarrow> ustr \<Rightarrow> ustr" where
  "classify lower text' =
     (if has_keyword positive_words (lower text') then positive
      else if has_keyword negative_words (lower text') then negative
      else neutral)"

section \<open>The store\<close>

text \<open>
  The table of \<open>init_db\<close>:
  \<^verbatim>\<open>reviews(id SERIAL PRIMARY KEY, text TEXT NOT NULL, sentiment TEXT NOT NULL,
  created_at TIMESTAMP NOT NULL)\<close>.
  A row is a record. A \<open>datetime\<close> is the number of microseconds on the server's clock,
  the resolution both of \<open>datetime.now()\<close> and of the column. The store is the list of
  rows in the order of their insertion, with the next value of the sequence behind
  \<open>SERIAL\<close>. The connection pool is taken to hand out a connection, and the database
  to be encoded in UTF-8. What the driver, the server or the schema refuses (a string
  that cannot be sent, the character U+0000, a used key, a sequence at its end) is an
  error value of the model.
\<close>

type_synonym datetime = int

record review =
  r_id :: int
  r_text :: ustr
  r_sentiment :: ustr
  r_created_at :: datetime

record store =
  rows :: "review list"
  next_id :: int

datatype error =
  RequestValidationError
  | UnicodeEncodeError
  | CharacterNotInRepertoireError
  | SequenceExhausted
  | UniqueViolation
  | TypeError
  | ResponseValidationError

text \<open>
  The status of the response to an exception: the framework answers a request that fails
  validation with 422, and any exception out of a handler with 500.
\<close>

fun status_code :: "error \<Rightarrow> nat" where
  "status_code RequestValidationError = 422"
| "status_code _ = 500"

definition is_client_error :: "error \<Rightarrow> bool" where
  "is_client_error e = (400 \<le> status_code e \<and> status_code e < 500)"

text \<open>
  \<open>CREATE TABLE IF NOT EXISTS\<close>: an absent table is created empty, with its sequence at
  1; a table that exists is left as it is.
\<close>

definition init_db :: "store option \<Rightarrow> store" where
  "init_db existing =
     (case existing of None \<Rightarrow> \<lparr>rows = [], next_id = 1\<rparr> | Some st \<Rightarrow> st)"

text \<open>
  A string argument of a query. The driver sends it in UTF-8, which has no encoding for a
  surrogate (U+D800 to U+DFFF), so a string with one raises in the driver; the server
  refuses a text value that holds U+0000. Either way the statement is not executed.
  \<open>refused s\<close> is the exception, if any.
\<close>

definition scalar_value :: "codepoint \<Rightarrow> bool" where
  "scalar_value c = (c < 55296 \<or> (57343 < c \<and> c < 1114112))"

definition refused :: "ustr \<Rightarrow> error option" where
  "refused s =
     (if list_all scalar_value s
      then (if 0 \<in> set s then Some CharacterNotInRepertoireError else None)
      else Some UnicodeEncodeError)"

text \<open>
  \<open>INSERT INTO reviews (text, sentiment, created_at) VALUES ($1, $2, $3) RETURNING id\<close>.
  A refused argument leaves the store as it is. Otherwise the id is the next value of
  the sequence, which has the range of a 4-byte integer and keeps a value it has handed
  out even if the insertion then fails on the primary key.
\<close>

definition insert_returning_id :: "ustr \<Rightarrow> ustr \<Rightarrow> datetime \<Rightarrow> store \<Rightarrow> (error + int) \<times> store" where
  "insert_returning_id text' sentiment created_at st =
     (case refused text' of
        Some e \<Rightarrow> (Inl e, st)
      | None \<Rightarrow>
     (case refused sentiment of
        Some e \<Rightarrow> (Inl e, st)
      | None \<Rightarrow>
     (let n = next_id st in
      if 2147483647 < n then (Inl SequenceExhausted, st)
      else if n \<in> set (map r_id (rows st)) then (Inl UniqueViolation, st\<lparr>next_id := n + 1\<rparr>)
      else (Inr n,
            \<lparr>rows = rows st @
               [\<lparr>r_id = n, r_text = text', r_sentiment = sentiment, r_created_at = created_at\<rparr>],
             next_id = n + 1\<rparr>))))"

text \<open>\<open>SELECT id, text, sentiment, created_at FROM reviews WHERE id = $1\<close>, first row or none.\<close>

definition fetchrow_by_id :: "int \<Rightarrow> store \<Rightarrow> review option" where
  "fetchrow_by_id review_id st = find (\<lambda>r. r_id r = review_id) (rows st)"

text \<open>
  \<open>ORDER BY created_at DESC\<close> fixes the order of two rows only when their timestamps
  differ; among equal timestamps the server may return the rows in any order. So the
  query is a relation between the selected rows and a result: the result holds the same
  rows, each as often, and no row is followed by one with a greater timestamp.
\<close>

definition order_by_created_at_desc :: "review list \<Rightarrow> review list \<Rightarrow> bool" where
  "order_by_created_at_desc selected result =
     (mset result = mset selected
      \<and> sorted_wrt (\<lambda>a b. r_created_at b \<le> r_created_at a) result)"

section \<open>The handlers\<close>

record ReviewRequest =
  req_text :: ustr

text \<open>
  \<open>create_review\<close>, with the clock reading \<open>now\<close> as an input. \<open>dict(new_review)\<close> raises
  a \<open>TypeError\<close> when \<open>fetchrow\<close> found no row. The result is the row read back;
  its \<open>created_at\<close> is the \<open>datetime\<close> of the column.
\<close>

definition create_review ::
  "(ustr \<Rightarrow> ustr) \<Rightarrow> datetime \<Rightarrow> ReviewRequest \<Rightarrow> store \<Rightarrow> (error + review) \<times> store" where
  "create_review lower now review st =
     (let sentiment = analyze_sentiment lower (req_text review);
          created_at = now
      in case insert_returning_id (req_text review) sentiment created_at st of
           (Inl e, st1) \<Rightarrow> (Inl e, st1)
         | (Inr review_id, st1) \<Rightarrow>
             (case fetchrow_by_id review_id st1 of
                None \<Rightarrow> (Inl TypeError, st1)
              | Some new_review \<Rightarrow> (Inr new_review, st1)))"

text \<open>
  \<open>get_reviews\<close>, the handler: what it returns to the framework, the rows of its query
  or the exception of the query. \<open>if sentiment:\<close> is Python's truth test: \<open>None\<close> and
  the empty string are both false. The filter is an argument of the first query and is
  sent as it came. The store is only read.
\<close>

fun truthy :: "ustr option \<Rightarrow> bool" where
  "truthy None = False"
| "truthy (Some s) = (s \<noteq> [])"

definition fetch :: "review list \<Rightarrow> error + review list \<Rightarrow> bool" where
  "fetch selected result =
     (case result of Inl e \<Rightarrow> False | Inr reviews \<Rightarrow> order_by_created_at_desc selected reviews)"

definition get_reviews :: "ustr option \<Rightarrow> store \<Rightarrow> error + review list \<Rightarrow> bool" where
  "get_reviews sentiment st result =
     (if truthy sentiment
      then (case refused (the sentiment) of
              Some e \<Rightarrow> result = Inl e
            | None \<Rightarrow> fetch (filter (\<lambda>r. r_sentiment r = the sentiment) (rows st)) result)
      else fetch (rows st) result)"



section \<open>The endpoints\<close>

text \<open>
  A request body is JSON text; \<open>None\<close> stands for a body that is not JSON. In an object
  with a repeated key the last value counts, as in \<open>json.loads\<close>.
\<close>

datatype json =
  JNull
  | JBool bool
  | JNum int
  | JStr ustr
  | JArr "json list"
  | JObj "(ustr \<times> json) list"

text \<open>
  The body of \<open>POST /reviews\<close> is validated against \<open>ReviewRequest\<close>, whose only field
  \<open>text: str\<close> has no default and is therefore required. A value of another JSON type
  is taken not to validate, as the current major version of the validation library has
  it. The handler runs only on a request that passed.
\<close>

definition parse_ReviewRequest :: "json option \<Rightarrow> error + ReviewRequest" where
  "parse_ReviewRequest body =
     (case body of
        Some (JObj members) \<Rightarrow>
          (case map_of (rev members) (str ''text'') of
             Some (JStr s) \<Rightarrow> Inr \<lparr>req_text = s\<rparr>
           | _ \<Rightarrow> Inl RequestValidationError)
      | _ \<Rightarrow> Inl RequestValidationError)"

text \<open>
  The values of a row as Python objects, and \<open>dict(new_review)\<close>, the handler's return
  value: the column \<open>created_at\<close> comes back as a \<open>datetime\<close> object.
\<close>

datatype pyval = PyInt int | PyStr ustr | PyDatetime datetime

definition dict :: "review \<Rightarrow> (ustr \<times> pyval) list" where
  "dict r =
     [(str ''id'', PyInt (r_id r)),
      (str ''text'', PyStr (r_text r)),
      (str ''sentiment'', PyStr (r_sentiment r)),
      (str ''created_at'', PyDatetime (r_created_at r))]"

text \<open>
  \<open>response_model=ReviewResponse\<close>: the framework validates the handler's return value
  against the model before it serialises it, and raises when a field does not validate.
  A field of type \<open>int\<close> takes an integer, a field of type \<open>str\<close> takes a string; a
  \<open>datetime\<close> object is not a string and is not converted to one.
\<close>

record ReviewResponse =
  resp_id :: int
  resp_text :: ustr
  resp_sentiment :: ustr
  resp_created_at :: ustr

fun int_field :: "pyval option \<Rightarrow> int option" where
  "int_field (Some (PyInt i)) = Some i"
| "int_field _ = None"

fun str_field :: "pyval option \<Rightarrow> ustr option" where
  "str_field (Some (PyStr s)) = Some s"
| "str_field _ = None"

definition validate_ReviewResponse :: "(ustr \<times> pyval) list \<Rightarrow> error + ReviewResponse" where
  "validate_ReviewResponse d =
     (case (int_field (map_of d (str ''id'')), str_field (map_of d (str ''text'')),
            str_field (map_of d (str ''sentiment'')), str_field (map_of d (str ''created_at''))) of
        (Some i, Some t, Some s, Some c) \<Rightarrow>
          Inr \<lparr>resp_id = i, resp_text = t, resp_sentiment = s, resp_created_at = c\<rparr>
      | _ \<Rightarrow> Inl ResponseValidationError)"


definition post_reviews ::
  "(ustr \<Rightarrow> ustr) \<Rightarrow> datetime \<Rightarrow> json option \<Rightarrow> store \<Rightarrow> (error + ReviewResponse) \<times> store" where
  "post_reviews lower now body st =
     (case parse_ReviewRequest body of
        Inl e \<Rightarrow> (Inl e, st)
      | Inr review \<Rightarrow>
          (case create_review lower now review st of
             (Inl e, st1) \<Rightarrow> (Inl e, st1)
           | (Inr new_review, st1) \<Rightarrow> (validate_ReviewResponse (dict new_review), st1)))"

text \<open>
  \<open>GET /reviews\<close> has \<open>response_model=list[ReviewResponse]\<close>: the list that the handler
  returns, \<open>[dict(review) for review in reviews]\<close>, is validated item by item, and the
  first item that does not validate ends the request. \<open>respond_reviews\<close> is the answer
  of the route to a result of the handler; an exception of the handler is the answer.
\<close>

fun validate_list :: "(ustr \<times> pyval) list list \<Rightarrow> error + ReviewResponse list" where
  "validate_list [] = Inr []"
| "validate_list (d # ds) =
     (case validate_ReviewResponse d of
        Inl e \<Rightarrow> Inl e
      | Inr response \<Rightarrow>
          (case validate_list ds of
             Inl e \<Rightarrow> Inl e
           | Inr responses \<Rightarrow> Inr (response # responses)))"

fun respond_reviews :: "error + review list \<Rightarrow> error + ReviewResponse list" where
  "respond_reviews (Inl e) = Inl e"
| "respond_reviews (Inr reviews) = validate_list (map dict reviews)"

text \<open>
  A run of the service: requests handled one after the other, from the store that
  \<open>init_db\<close> leaves. A listing changes nothing.
\<close>

datatype request = POST "json option" datetime | GET "ustr option"

fun handle :: "(ustr \<Rightarrow> ustr) \<Rightarrow> request \<Rightarrow> store \<Rightarrow> store" where
  "handle lower (POST body now) st = snd (post_reviews lower now body st)"
| "handle lower (GET sentiment) st = st"

definition run :: "(ustr \<Rightarrow> ustr) \<Rightarrow> request list \<Rightarrow> store \<Rightarrow> store" where
  "run lower requests st = fold (handle lower) requests st"

text \<open>The texts that a list of requests submits in bodies that pass validation.\<close>

fun submitted_texts :: "request list \<Rightarrow> ustr list" where
  "submitted_texts [] = []"
| "submitted_texts (POST body now # requests) =
     (case parse_ReviewRequest body of
        Inl e \<Rightarrow> submitted_texts requests
      | Inr review \<Rightarrow> req_text review # submitted_texts requests)"
| "submitted_texts (GET sentiment # requests) = submitted_texts requests"

definition sentiments_enumerated :: "store \<Rightarrow> bool" where
  "sentiments_enumerated st =
     (\<forall>r \<in> set (rows st). r_sentiment r \<in> {positive, negative, neutral})"

section \<open>Example data\<close>

text \<open>
  Three texts and the store they leave. \<open>text_love\<close> is U+044F, space, and the keyword
  U+043B U+044E U+0431 U+043B U+044E; \<open>text_bad\<close> is the keyword U+043F U+043B U+043E U+0445
  U+043E; \<open>text_day\<close> (two words, no keyword) is U+043E U+0431 U+044B U+0447 U+043D U+044B
  U+0439, space, U+0434 U+0435 U+043D U+044C. \<open>body_of t\<close> is the body \<open>{"text": t}\<close>.
\<close>

definition text_love :: ustr where
  "text_love = [1103, 32, 1083, 1102, 1073, 1083, 1102]"

definition text_bad :: ustr where
  "text_bad = [1087, 1083, 1086, 1093, 1086]"

definition text_day :: ustr where
  "text_day = [1086, 1073, 1099, 1095, 1085, 1099, 1081, 32, 1076, 1077, 1085, 1100]"

definition body_of :: "ustr \<Rightarrow> json option" where
  "body_of t = Some (JObj [(str ''text'', JStr t)])"

definition review_love :: review where
  "review_love = \<lparr>r_id = 1, r_text = text_love, r_sentiment = positive, r_created_at = 10\<rparr>"

definition review_bad :: review where
  "review_bad = \<lparr>r_id = 2, r_text = text_bad, r_sentiment = negative, r_created_at = 20\<rparr>"

definition review_day :: review where
  "review_day = \<lparr>r_id = 3, r_text = text_day, r_sentiment = neutral, r_created_at = 30\<rparr>"

definition three_reviews :: store where
  "three_reviews = \<lparr>rows = [review_love, review_bad, review_day], next_id = 4\<rparr>"

section \<open>Properties of the classifier\<close>

lemma startswith_prefix: "startswith cs word = prefix word cs"
  by (induction cs word rule: startswith.induct) auto

lemma contains_sublist: "contains cs word = sublist word cs"
proof (induction cs)
  case Nil
  show ?case by simp
next
  case (Cons c cs)
  then show ?case by (simp add: startswith_prefix sublist_Cons_right)
qed

lemma list_ex_contains: "list_ex (\<lambda>word. contains s word) keywords = has_keyword keywords s"
  by (simp add: has_keyword_def list_ex_iff contains_sublist)

lemma analyze_sentiment_classify: "analyze_sentiment lower text' = classify lower text'"
  by (simp add: analyze_sentiment_def classify_def list_ex_contains)

lemma no_keyword_in_empty:
  "\<not> has_keyword positive_words []" "\<not> has_keyword negative_words []"
  by (simp_all add: has_keyword_def positive_words_def negative_words_def)


text \<open>
  C1. For every string, \<open>analyze_sentiment\<close> returns \<open>positive\<close> if the lower-cased
  input contains a positive keyword as a substring, else \<open>negative\<close> if it contains a
  negative keyword, else \<open>neutral\<close>. So a text with a keyword of each kind is
  \<open>positive\<close>, and the empty string (which lower-cases to itself) is \<open>neutral\<close>.
\<close>

theorem analyze_sentiment_spec:
  "analyze_sentiment lower text' =
     (if has_keyword positive_words (lower text') then positive
      else if has_keyword negative_words (lower text') then negative
      else neutral)
   \<and> (has_keyword positive_words (lower text') \<and> has_keyword negative_words (lower text')
        \<longrightarrow> analyze_sentiment lower text' = positive)
   \<and> (lower [] = [] \<longrightarrow> analyze_sentiment lower [] = neutral)"
  using no_keyword_in_empty
  by (simp add: analyze_sentiment_classify classify_def)

text \<open>
  At the text U+0425 U+041E U+0420 U+041E U+0428 U+041E, comma, space, U+043D U+043E, space,
  U+043F U+043B U+043E U+0445 U+043E (an upper-case positive keyword, then a negative one).
\<close>

theorem analyze_sentiment_spec_witness:
  "has_keyword positive_words
     (lower_basic [1061, 1054, 1056, 1054, 1064, 1054, 44, 32, 1085, 1086, 32, 1087, 1083, 1086, 1093, 1086])
   \<and> has_keyword negative_words
     (lower_basic [1061, 1054, 1056, 1054, 1064, 1054, 44, 32, 1085, 1086, 32, 1087, 1083, 1086, 1093, 1086])
   \<and> analyze_sentiment lower_basic
     [1061, 1054, 1056, 1054, 1064, 1054, 44, 32, 1085, 1086, 32, 1087, 1083, 1086, 1093, 1086] = positive
   \<and> lower_basic [] = []
   \<and> analyze_sentiment lower_basic [] = neutral"
proof -
  let ?t = "[1061, 1054, 1056, 1054, 1064, 1054, 44, 32, 1085, 1086, 32, 1087, 1083, 1086, 1093, 1086] :: ustr"
  have low: "lower_basic ?t =
      [1093, 1086, 1088, 1086, 1096, 1086, 44, 32, 1085, 1086, 32, 1087, 1083, 1086, 1093, 1086]"
    by (simp add: lower_basic_def lower_cp_def)
  have p: "has_keyword positive_words (lower_basic ?t)"
    unfolding low list_ex_contains [symmetric] by (simp add: positive_words_def)
  have n: "has_keyword negative_words (lower_basic ?t)"
    unfolding low list_ex_contains [symmetric] by (simp add: negative_words_def)
  have e: "lower_basic [] = []"
    by (simp add: lower_basic_def)
  from p n e analyze_sentiment_spec [of lower_basic ?t] analyze_sentiment_spec [of lower_basic "[]"]
  show ?thesis by simp
qed

section \<open>Properties of the store and the handlers\<close>

lemma find_append_new:
  "n \<notin> r_id ` set rs \<Longrightarrow> r_id x = n \<Longrightarrow> find (\<lambda>r. r_id r = n) (rs @ [x]) = Some x"
  by (induction rs) auto

lemma refused_Nil: "refused [] = None"
  by (simp add: refused_def)

lemma refused_labels: "refused positive = None" "refused negative = None" "refused neutral = None"
  by (simp_all add: refused_def scalar_value_def positive_def negative_def neutral_def str_def)

lemma analyze_sentiment_enumerated: "analyze_sentiment lower t \<in> {positive, negative, neutral}"
  by (simp add: analyze_sentiment_def Let_def)

lemma refused_analyze_sentiment: "refused (analyze_sentiment lower t) = None"
  using analyze_sentiment_enumerated [of lower t] refused_labels by auto

lemma insert_returning_id_accepted:
  assumes "refused t = None" and "refused s = None"
  shows "insert_returning_id t s c st =
     (let n = next_id st in
      if 2147483647 < n then (Inl SequenceExhausted, st)
      else if n \<in> set (map r_id (rows st)) then (Inl UniqueViolation, st\<lparr>next_id := n + 1\<rparr>)
      else (Inr n,
            \<lparr>rows = rows st @ [\<lparr>r_id = n, r_text = t, r_sentiment = s, r_created_at = c\<rparr>],
             next_id = n + 1\<rparr>))"
  using assms by (simp add: insert_returning_id_def)

lemma insert_returning_id_refused:
  assumes "refused t = Some e"
  shows "insert_returning_id t s c st = (Inl e, st)"
  using assms by (simp add: insert_returning_id_def)

lemma insert_returning_id_Inr:
  assumes "insert_returning_id t s c st = (Inr n, st1)"
  shows "n = next_id st \<and> n \<notin> r_id ` set (rows st)
         \<and> st1 = \<lparr>rows = rows st @ [\<lparr>r_id = n, r_text = t, r_sentiment = s, r_created_at = c\<rparr>],
                  next_id = n + 1\<rparr>
         \<and> refused t = None"
proof -
  from assms have t: "refused t = None"
    by (cases "refused t") (simp_all add: insert_returning_id_def)
  from assms t have s: "refused s = None"
    by (cases "refused s") (simp_all add: insert_returning_id_def)
  note ins = assms [unfolded insert_returning_id_accepted [OF t s]]
  show ?thesis
  proof (cases "2147483647 < next_id st")
    case True
    with ins show ?thesis by (simp add: Let_def)
  next
    case False
    show ?thesis
    proof (cases "next_id st \<in> r_id ` set (rows st)")
      case True
      with False ins show ?thesis by (simp add: Let_def)
    next
      case notin: False
      with False ins t show ?thesis by (auto simp add: Let_def)
    qed
  qed
qed

lemma insert_returning_id_Inl:
  assumes "insert_returning_id t s c st = (Inl e, st1)"
  shows "rows st1 = rows st"
proof (cases "refused t")
  case (Some e')
  with assms show ?thesis by (simp add: insert_returning_id_def)
next
  case t: None
  show ?thesis
  proof (cases "refused s")
    case (Some e')
    with assms t show ?thesis by (simp add: insert_returning_id_def)
  next
    case s: None
    note ins = assms [unfolded insert_returning_id_accepted [OF t s]]
    show ?thesis
    proof (cases "2147483647 < next_id st")
      case True
      with ins show ?thesis by (simp add: Let_def)
    next
      case False
      with ins show ?thesis
        by (cases "next_id st \<in> r_id ` set (rows st)") (auto simp add: Let_def)
    qed
  qed
qed

lemma create_review_Inr:
  assumes "create_review lower now review st = (Inr created, st1)"
  shows "created = \<lparr>r_id = next_id st, r_text = req_text review,
                    r_sentiment = analyze_sentiment lower (req_text review), r_created_at = now\<rparr>
         \<and> rows st1 = rows st @ [created] \<and> next_id st1 = next_id st + 1
         \<and> next_id st \<notin> r_id ` set (rows st)
         \<and> refused (req_text review) = None"
proof -
  let ?s = "analyze_sentiment lower (req_text review)"
  obtain res st' where ins: "insert_returning_id (req_text review) ?s now st = (res, st')"
    by (cases "insert_returning_id (req_text review) ?s now st")
  show ?thesis
  proof (cases res)
    case (Inl e)
    with assms ins show ?thesis by (simp add: create_review_def Let_def)
  next
    case (Inr n)
    note facts = insert_returning_id_Inr [OF ins [unfolded Inr]]
    let ?new = "\<lparr>r_id = n, r_text = req_text review, r_sentiment = ?s, r_created_at = now\<rparr>"
    have rows': "rows st' = rows st @ [?new]"
      using facts by simp
    have "n \<notin> r_id ` set (rows st)"
      using facts by blast
    then have "find (\<lambda>r. r_id r = n) (rows st @ [?new]) = Some ?new"
      by (rule find_append_new) simp
    then have fetch: "fetchrow_by_id n st' = Some ?new"
      by (simp add: fetchrow_by_id_def rows')
    from assms ins Inr fetch have "created = ?new" and "st1 = st'"
      by (simp_all add: create_review_def Let_def)
    moreover have "n = next_id st" and "next_id st' = n + 1"
      and "refused (req_text review) = None"
      using facts by simp_all
    ultimately show ?thesis
      using rows' \<open>n \<notin> r_id ` set (rows st)\<close> by simp
  qed
qed

lemma create_review_Inl:
  assumes "create_review lower now review st = (Inl e, st1)"
  shows "rows st1 = rows st"
proof -
  let ?s = "analyze_sentiment lower (req_text review)"
  obtain res st' where ins: "insert_returning_id (req_text review) ?s now st = (res, st')"
    by (cases "insert_returning_id (req_text review) ?s now st")
  show ?thesis
  proof (cases res)
    case (Inl e')
    with assms ins have "st1 = st'" by (simp add: create_review_def Let_def)
    with insert_returning_id_Inl [OF ins [unfolded Inl]] show ?thesis by simp
  next
    case (Inr n)
    note facts = insert_returning_id_Inr [OF ins [unfolded Inr]]
    let ?new = "\<lparr>r_id = n, r_text = req_text review, r_sentiment = ?s, r_created_at = now\<rparr>"
    have rows': "rows st' = rows st @ [?new]"
      using facts by simp
    have "n \<notin> r_id ` set (rows st)"
      using facts by blast
    then have "find (\<lambda>r. r_id r = n) (rows st @ [?new]) = Some ?new"
      by (rule find_append_new) simp
    then have fetch: "fetchrow_by_id n st' = Some ?new"
      by (simp add: fetchrow_by_id_def rows')
    from assms ins Inr fetch show ?thesis
      by (simp add: create_review_def Let_def)
  qed
qed

lemma create_review_fresh:
  assumes "refused (req_text review) = None"
    and "next_id st \<le> 2147483647" and "next_id st \<notin> r_id ` set (rows st)"
  shows "create_review lower now review st =
     (Inr \<lparr>r_id = next_id st, r_text = req_text review,
            r_sentiment = analyze_sentiment lower (req_text review), r_created_at = now\<rparr>,
      \<lparr>rows = rows st @ [\<lparr>r_id = next_id st, r_text = req_text review,
            r_sentiment = analyze_sentiment lower (req_text review), r_created_at = now\<rparr>],
       next_id = next_id st + 1\<rparr>)"
proof -
  let ?s = "analyze_sentiment lower (req_text review)"
  let ?new = "\<lparr>r_id = next_id st, r_text = req_text review, r_sentiment = ?s, r_created_at = now\<rparr>"
  let ?st1 = "\<lparr>rows = rows st @ [?new], next_id = next_id st + 1\<rparr>"
  have ins: "insert_returning_id (req_text review) ?s now st = (Inr (next_id st), ?st1)"
    using assms(2,3)
    by (simp add: insert_returning_id_accepted [OF assms(1) refused_analyze_sentiment] Let_def)
  have "find (\<lambda>r. r_id r = next_id st) (rows st @ [?new]) = Some ?new"
    using assms(3) by (rule find_append_new) simp
  then have "fetchrow_by_id (next_id st) ?st1 = Some ?new"
    by (simp add: fetchrow_by_id_def)
  with ins show ?thesis
    by (simp add: create_review_def Let_def)
qed

lemma create_review_refused:
  assumes "refused (req_text review) = Some e"
  shows "create_review lower now review st = (Inl e, st)"
  by (simp add: create_review_def Let_def insert_returning_id_refused [OF assms])

lemma create_review_succeeds:
  assumes "refused (req_text review) = None"
    and "next_id st \<le> 2147483647" and "next_id st \<notin> r_id ` set (rows st)"
  shows "\<exists>created st1. create_review lower now review st = (Inr created, st1)"
  using create_review_fresh [OF assms] by blast

subsection \<open>Running the examples\<close>

lemma analyze_examples:
  "analyze_sentiment lower_basic text_love = positive"
  "analyze_sentiment lower_basic text_bad = negative"
  "analyze_sentiment lower_basic text_day = neutral"
  "analyze_sentiment lower_basic [] = neutral"
  by (simp_all add: analyze_sentiment_def lower_basic_def lower_cp_def text_love_def text_bad_def
      text_day_def positive_words_def negative_words_def)

lemma refused_examples:
  "refused text_love = None" "refused text_bad = None" "refused text_day = None"
  by (simp_all add: refused_def scalar_value_def text_love_def text_bad_def text_day_def)

lemma parse_body_of: "parse_ReviewRequest (body_of t) = Inr \<lparr>req_text = t\<rparr>"
  by (simp add: parse_ReviewRequest_def body_of_def)

lemma post_reviews_store:
  "snd (post_reviews lower now body st) =
     (case parse_ReviewRequest body of
        Inl e \<Rightarrow> st
      | Inr review \<Rightarrow> snd (create_review lower now review st))"
  by (simp add: post_reviews_def split: sum.split prod.split)

lemma run_three:
  "run lower_basic [POST (body_of text_love) 10, POST (body_of text_bad) 20, POST (body_of text_day) 30]
     (init_db None) = three_reviews"
  by (simp add: run_def post_reviews_store parse_body_of create_review_fresh refused_examples
      init_db_def analyze_examples three_reviews_def review_love_def review_bad_def review_day_def)

lemma run_empty_text:
  "run lower_basic [POST (body_of []) 0] (init_db None)
     = \<lparr>rows = [\<lparr>r_id = 1, r_text = [], r_sentiment = neutral, r_created_at = 0\<rparr>], next_id = 2\<rparr>"
  by (simp add: run_def post_reviews_store parse_body_of create_review_fresh refused_Nil
      init_db_def analyze_examples)

subsection \<open>Validation of the request\<close>

lemma parse_missing_text:
  "str ''text'' \<notin> fst ` set members \<Longrightarrow>
     parse_ReviewRequest (Some (JObj members)) = Inl RequestValidationError"
proof -
  assume "str ''text'' \<notin> fst ` set members"
  then have "map_of (rev members) (str ''text'') = None"
    by (simp add: map_of_eq_None_iff)
  then show ?thesis by (simp add: parse_ReviewRequest_def)
qed

lemma parse_malformed: "parse_ReviewRequest None = Inl RequestValidationError"
  by (simp add: parse_ReviewRequest_def)

text \<open>
  C6. A creation request whose body is not JSON, or is an object without the field
  \<open>text\<close>, is answered with a validation error, whose status is in the 4xx class, and
  the store after the request is the store before it.
\<close>

theorem missing_text_client_error:
  assumes "body = None \<or> (\<exists>members. body = Some (JObj members) \<and> str ''text'' \<notin> fst ` set members)"
  shows "post_reviews lower now body st = (Inl RequestValidationError, st)
         \<and> is_client_error RequestValidationError
         \<and> rows (handle lower (POST body now) st) = rows st"
proof -
  from assms have "parse_ReviewRequest body = Inl RequestValidationError"
    using parse_missing_text parse_malformed by blast
  then have "post_reviews lower now body st = (Inl RequestValidationError, st)"
    by (simp add: post_reviews_def)
  then show ?thesis by (simp add: is_client_error_def)
qed

theorem missing_text_client_error_witness:
  "str ''text'' \<notin> fst ` set [(str ''review'', JStr text_love)]
   \<and> post_reviews lower_basic 10 (Some (JObj [(str ''review'', JStr text_love)])) three_reviews
       = (Inl RequestValidationError, three_reviews)
   \<and> post_reviews lower_basic 10 None three_reviews = (Inl RequestValidationError, three_reviews)
   \<and> status_code RequestValidationError = 422"
proof -
  have k: "str ''text'' \<notin> fst ` set [(str ''review'', JStr text_love)]"
    by (simp add: str_def)
  then have "Some (JObj [(str ''review'', JStr text_love)]) = None
      \<or> (\<exists>members. Some (JObj [(str ''review'', JStr text_love)]) = Some (JObj members)
            \<and> str ''text'' \<notin> fst ` set members)"
    by blast
  from missing_text_client_error [OF this, of lower_basic 10 three_reviews]
    missing_text_client_error [of None lower_basic 10 three_reviews] k
  show ?thesis by simp
qed

subsection \<open>Invariants of the store\<close>

lemma create_review_rows:
  "rows (snd (create_review lower now review st)) = rows st
   \<or> rows (snd (create_review lower now review st)) =
       rows st @ [\<lparr>r_id = next_id st, r_text = req_text review,
                    r_sentiment = analyze_sentiment lower (req_text review), r_created_at = now\<rparr>]"
proof -
  obtain res st1 where c: "create_review lower now review st = (res, st1)"
    by (cases "create_review lower now review st")
  show ?thesis
  proof (cases res)
    case (Inl e)
    with c create_review_Inl have "rows st1 = rows st" by blast
    with c show ?thesis by simp
  next
    case (Inr created)
    with c have "create_review lower now review st = (Inr created, st1)" by simp
    from create_review_Inr [OF this] c show ?thesis by simp
  qed
qed

lemma handle_rows:
  "rows (handle lower request st) = rows st
   \<or> (\<exists>new body now review. rows (handle lower request st) = rows st @ [new]
        \<and> r_sentiment new = analyze_sentiment lower (r_text new)
        \<and> request = POST body now \<and> parse_ReviewRequest body = Inr review
        \<and> r_text new = req_text review)"
proof (cases request)
  case (GET sentiment)
  then show ?thesis by simp
next
  case (POST body now)
  show ?thesis
  proof (cases "parse_ReviewRequest body")
    case (Inl e)
    with POST show ?thesis by (simp add: post_reviews_store)
  next
    case (Inr review)
    let ?new = "\<lparr>r_id = next_id st, r_text = req_text review,
                  r_sentiment = analyze_sentiment lower (req_text review), r_created_at = now\<rparr>"
    from POST Inr have h: "handle lower request st = snd (create_review lower now review st)"
      by (simp add: post_reviews_store)
    from create_review_rows [of lower now review st]
    show ?thesis
    proof
      assume "rows (snd (create_review lower now review st)) = rows st"
      with h show ?thesis by simp
    next
      assume "rows (snd (create_review lower now review st)) = rows st @ [?new]"
      with h have "rows (handle lower request st) = rows st @ [?new]" by simp
      moreover have "r_sentiment ?new = analyze_sentiment lower (r_text ?new)" by simp
      moreover have "r_text ?new = req_text review" by simp
      ultimately show ?thesis using POST Inr by blast
    qed
  qed
qed

lemma handle_sentiments_enumerated:
  assumes "sentiments_enumerated st"
  shows "sentiments_enumerated (handle lower request st)"
proof -
  from handle_rows [of lower request st]
  consider "rows (handle lower request st) = rows st"
    | new where "rows (handle lower request st) = rows st @ [new]"
        and "r_sentiment new = analyze_sentiment lower (r_text new)"
    by blast
  then show ?thesis
  proof cases
    case 1
    with assms show ?thesis by (simp add: sentiments_enumerated_def)
  next
    case 2
    from 2(2) analyze_sentiment_enumerated [of lower "r_text new"]
    have "r_sentiment new \<in> {positive, negative, neutral}" by simp
    with assms 2(1) show ?thesis by (simp add: sentiments_enumerated_def)
  qed
qed

lemma run_sentiments_enumerated:
  "sentiments_enumerated st \<Longrightarrow> sentiments_enumerated (run lower requests st)"
  unfolding run_def
  by (induction requests arbitrary: st) (simp_all add: handle_sentiments_enumerated)

lemma init_db_sentiments_enumerated: "sentiments_enumerated (init_db None)"
  by (simp add: sentiments_enumerated_def init_db_def)

text \<open>
  C8. Each request leaves a store in which every sentiment is one of the three labels
  as such a store; the store that \<open>init_db\<close> creates is one; so is the store after any
  sequence of requests from there.
\<close>

theorem sentiment_invariant:
  "(sentiments_enumerated st \<longrightarrow> sentiments_enumerated (handle lower request st))
   \<and> sentiments_enumerated (init_db None)
   \<and> sentiments_enumerated (run lower requests (init_db None))"
  by (simp add: handle_sentiments_enumerated init_db_sentiments_enumerated run_sentiments_enumerated)

theorem sentiment_invariant_witness:
  "sentiments_enumerated three_reviews
   \<and> sentiments_enumerated (handle lower_basic (POST (body_of []) 40) three_reviews)
   \<and> rows (run lower_basic
        [POST (body_of text_love) 10, POST (body_of text_bad) 20, POST (body_of text_day) 30]
        (init_db None)) = [review_love, review_bad, review_day]
   \<and> r_sentiment review_love \<in> {positive, negative, neutral}
   \<and> r_sentiment review_bad \<in> {positive, negative, neutral}
   \<and> r_sentiment review_day \<in> {positive, negative, neutral}"
proof -
  let ?requests = "[POST (body_of text_love) 10, POST (body_of text_bad) 20, POST (body_of text_day) 30]"
  have s: "sentiments_enumerated three_reviews"
    by (simp add: sentiments_enumerated_def three_reviews_def review_love_def review_bad_def
        review_day_def)
  from sentiment_invariant [of three_reviews lower_basic "POST (body_of []) 40" ?requests] s
  have h: "sentiments_enumerated (handle lower_basic (POST (body_of []) 40) three_reviews)"
    by blast
  from s h show ?thesis
    by (simp add: run_three three_reviews_def review_love_def review_bad_def review_day_def)
qed

lemma handle_texts:
  "r_text ` set (rows (handle lower request st))
     \<subseteq> r_text ` set (rows st) \<union> set (submitted_texts (request # requests))"
proof -
  from handle_rows [of lower request st]
  consider "rows (handle lower request st) = rows st"
    | new body now review where "rows (handle lower request st) = rows st @ [new]"
        and "request = POST body now" and "parse_ReviewRequest body = Inr review"
        and "r_text new = req_text review"
    by blast
  then show ?thesis
  proof cases
    case 1
    then show ?thesis by auto
  next
    case 2
    then have "r_text new \<in> set (submitted_texts (request # requests))" by simp
    with 2(1) show ?thesis by auto
  qed
qed

lemma submitted_texts_Cons:
  "set (submitted_texts requests) \<subseteq> set (submitted_texts (request # requests))"
  by (cases request) (auto split: sum.splits)

lemma run_texts:
  "r_text ` set (rows (run lower requests st))
     \<subseteq> r_text ` set (rows st) \<union> set (submitted_texts requests)"
proof (induction requests arbitrary: st)
  case Nil
  show ?case by (simp add: run_def)
next
  case (Cons request requests)
  have "run lower (request # requests) st = run lower requests (handle lower request st)"
    by (simp add: run_def)
  then have "r_text ` set (rows (run lower (request # requests) st))
      \<subseteq> r_text ` set (rows (handle lower request st)) \<union> set (submitted_texts requests)"
    using Cons.IH [of "handle lower request st"] by simp
  also have "\<dots> \<subseteq> (r_text ` set (rows st) \<union> set (submitted_texts (request # requests)))
      \<union> set (submitted_texts (request # requests))"
    using handle_texts [of lower request st requests] submitted_texts_Cons [of requests request]
    by blast
  finally show ?case by blast
qed

text \<open>
  C9, as the code has it. After any sequence of requests from the store that \<open>init_db\<close>
  creates, the text of every persisted review is a text that one of the creation
  requests submitted; nothing requires it to be non-empty.
\<close>

theorem persisted_text_submitted:
  "\<forall>r \<in> set (rows (run lower requests (init_db None))). r_text r \<in> set (submitted_texts requests)"
  using run_texts [of lower requests "init_db None"]
  by (auto simp: init_db_def)

theorem persisted_text_submitted_witness:
  "rows (run lower_basic
      [POST (body_of text_love) 10, POST (body_of text_bad) 20, POST (body_of text_day) 30]
      (init_db None)) = [review_love, review_bad, review_day]
   \<and> submitted_texts
      [POST (body_of text_love) 10, POST (body_of text_bad) 20, POST (body_of text_day) 30]
      = [text_love, text_bad, text_day]
   \<and> r_text review_love \<in> set [text_love, text_bad, text_day]
   \<and> r_text review_bad \<in> set [text_love, text_bad, text_day]
   \<and> r_text review_day \<in> set [text_love, text_bad, text_day]"
  using persisted_text_submitted [of lower_basic
      "[POST (body_of text_love) 10, POST (body_of text_bad) 20, POST (body_of text_day) 30]"]
  by (simp add: run_three three_reviews_def parse_body_of review_love_def review_bad_def
      review_day_def)

text \<open>
  C9 as stated fails at the empty text: the body \<open>{"text": ""}\<close> passes validation, and
  the store after the request holds one review, whose text is empty.
\<close>

theorem empty_text_persisted:
  "map r_text (rows (run lower_basic [POST (body_of []) 0] (init_db None))) = [[]]"
  by (simp add: run_empty_text)

subsection \<open>The response of a creation\<close>

lemma create_review_read_back:
  assumes "create_review lower now review st = (Inr created, st1)"
  shows "fetchrow_by_id (r_id created) st1 = Some created"
proof -
  note c = create_review_Inr [OF assms]
  then have "r_id created \<notin> r_id ` set (rows st)" by simp
  then have "find (\<lambda>r. r_id r = r_id created) (rows st @ [created]) = Some created"
    by (rule find_append_new) simp
  with c show ?thesis by (simp add: fetchrow_by_id_def)
qed

lemma validate_dict: "validate_ReviewResponse (dict r) = Inl ResponseValidationError"
  by (simp add: validate_ReviewResponse_def dict_def str_def)

lemma post_reviews_no_response: "fst (post_reviews lower now body st) \<noteq> Inr response"
  by (simp add: post_reviews_def validate_dict split: sum.split prod.split)

text \<open>
  C4. The request \<open>{"text": t}\<close> with \<open>t = text_love\<close> at time 10 on the new store:
  the review is inserted and read back, but the value the handler returns holds
  \<open>created_at\<close> as a \<open>datetime\<close>, which the response model's field of type \<open>str\<close>
  rejects; the request ends in the error and no review is returned.
\<close>

theorem create_response_rejected:
  "create_review lower_basic 10 \<lparr>req_text = text_love\<rparr> (init_db None)
     = (Inr review_love, \<lparr>rows = [review_love], next_id = 2\<rparr>)
   \<and> map_of (dict review_love) (str ''created_at'') = Some (PyDatetime 10)
   \<and> post_reviews lower_basic 10 (body_of text_love) (init_db None)
     = (Inl ResponseValidationError, \<lparr>rows = [review_love], next_id = 2\<rparr>)"
proof -
  have c: "create_review lower_basic 10 \<lparr>req_text = text_love\<rparr> (init_db None)
     = (Inr review_love, \<lparr>rows = [review_love], next_id = 2\<rparr>)"
    by (simp add: create_review_fresh refused_examples init_db_def analyze_examples review_love_def)
  have d: "map_of (dict review_love) (str ''created_at'') = Some (PyDatetime 10)"
    by (simp add: dict_def str_def review_love_def)
  from c have "post_reviews lower_basic 10 (body_of text_love) (init_db None)
     = (Inl ResponseValidationError, \<lparr>rows = [review_love], next_id = 2\<rparr>)"
    by (simp add: post_reviews_def parse_body_of validate_dict)
  with c d show ?thesis by simp
qed

subsection \<open>The answer of the list route\<close>




lemma respond_reviews_rows:
  "respond_reviews (Inr (r # reviews)) = Inl ResponseValidationError"
  by (simp add: validate_dict)

subsection \<open>The rows of a listing\<close>


lemma order_by_Nil: "order_by_created_at_desc [] result = (result = [])"
  by (auto simp: order_by_created_at_desc_def)


lemma fetch_Inr: "fetch selected (Inr reviews) = order_by_created_at_desc selected reviews"
  by (simp add: fetch_def)

lemma fetch_cases:
  "fetch selected result = (\<exists>reviews. result = Inr reviews \<and> order_by_created_at_desc selected reviews)"
  by (cases result) (simp_all add: fetch_def)

lemma get_reviews_Some:
  "s \<noteq> [] \<Longrightarrow> refused s = None \<Longrightarrow>
     get_reviews (Some s) st result = fetch (filter (\<lambda>r. r_sentiment r = s) (rows st)) result"
  by (simp add: get_reviews_def)

lemma get_reviews_refused:
  "s \<noteq> [] \<Longrightarrow> refused s = Some e \<Longrightarrow> get_reviews (Some s) st result = (result = Inl e)"
  by (simp add: get_reviews_def)

lemma get_reviews_all:
  "get_reviews None st result = fetch (rows st) result"
  "get_reviews (Some []) st result = fetch (rows st) result"
  by (simp_all add: get_reviews_def)


lemma empty_filter_is_absent: "get_reviews (Some []) st = get_reviews None st"
  by (rule ext) (simp add: get_reviews_all)

lemma label_nonempty: "positive \<noteq> []" "negative \<noteq> []" "neutral \<noteq> []"
  by (simp_all add: positive_def negative_def neutral_def str_def)

lemma refused_nul: "refused [0] = Some CharacterNotInRepertoireError"
  by (simp add: refused_def scalar_value_def)

lemma listing_three:
  "order_by_created_at_desc (rows three_reviews) [review_day, review_bad, review_love]"
  by (simp add: order_by_created_at_desc_def three_reviews_def
      review_love_def review_bad_def review_day_def)




text \<open>
  C7, as the code has it. A filter that is not the empty string, is not refused as a
  query argument, is none of the three labels, and is carried by no stored row: the
  handler returns the empty list and nothing else, and the route answers with the empty
  list.
\<close>

theorem unrecognized_filter_empty:
  assumes "s \<noteq> []" and "refused s = None" and "s \<notin> {positive, negative, neutral}"
    and "\<forall>r \<in> set (rows st). r_sentiment r \<noteq> s"
  shows "get_reviews (Some s) st (Inr [])
         \<and> (\<forall>result. get_reviews (Some s) st result \<longrightarrow> result = Inr [])
         \<and> respond_reviews (Inr []) = Inr []"
proof -
  from assms(4) have "filter (\<lambda>r. r_sentiment r = s) (rows st) = []"
    by (simp add: filter_empty_conv)
  with assms(1,2) show ?thesis
    by (simp add: get_reviews_Some fetch_cases order_by_Nil)
qed

theorem unrecognized_filter_empty_witness:
  "str ''unknown'' \<noteq> [] \<and> refused (str ''unknown'') = None
   \<and> str ''unknown'' \<notin> {positive, negative, neutral}
   \<and> r_sentiment review_love \<noteq> str ''unknown'' \<and> r_sentiment review_bad \<noteq> str ''unknown''
   \<and> r_sentiment review_day \<noteq> str ''unknown''
   \<and> get_reviews (Some (str ''unknown'')) three_reviews (Inr [])
   \<and> respond_reviews (Inr []) = Inr []"
proof -
  have a: "str ''unknown'' \<noteq> []" and b: "str ''unknown'' \<notin> {positive, negative, neutral}"
    by (simp_all add: str_def positive_def negative_def neutral_def)
  have u: "refused (str ''unknown'') = None"
    by (simp add: refused_def scalar_value_def str_def)
  have c: "\<forall>r \<in> set (rows three_reviews). r_sentiment r \<noteq> str ''unknown''"
    using b by (auto simp: three_reviews_def review_love_def review_bad_def review_day_def)
  from unrecognized_filter_empty [OF a u b c] a u b c show ?thesis
    by (simp add: three_reviews_def)
qed

text \<open>
  C7 as stated fails at U+0000 and at the empty string: both are outside the three
  labels and carried by no row. The filter U+0000 on the store of the three reviews
  ends in an error, with status 500. The filter \<open>""\<close> on the store that one creation of
  \<open>text_love\<close> leaves reads the row, not the empty sequence.
\<close>

theorem unrecognized_filter_error:
  "[0] \<notin> {positive, negative, neutral}
   \<and> [0] \<notin> set (map r_sentiment (rows three_reviews))
   \<and> get_reviews (Some [0]) three_reviews (Inl CharacterNotInRepertoireError)
   \<and> \<not> get_reviews (Some [0]) three_reviews (Inr [])
   \<and> respond_reviews (Inl CharacterNotInRepertoireError) = Inl CharacterNotInRepertoireError
   \<and> status_code CharacterNotInRepertoireError = 500
   \<and> [] \<notin> {positive, negative, neutral}
   \<and> [] \<notin> set (map r_sentiment (rows (run lower_basic [POST (body_of text_love) 10] (init_db None))))
   \<and> get_reviews (Some []) (run lower_basic [POST (body_of text_love) 10] (init_db None))
        (Inr [review_love])
   \<and> \<not> get_reviews (Some []) (run lower_basic [POST (body_of text_love) 10] (init_db None)) (Inr [])"
proof -
  have r: "run lower_basic [POST (body_of text_love) 10] (init_db None)
      = \<lparr>rows = [review_love], next_id = 2\<rparr>"
    by (simp add: run_def post_reviews_store parse_body_of create_review_fresh refused_examples
        init_db_def analyze_examples review_love_def)
  have z: "[0] \<notin> {positive, negative, neutral}"
    by (simp add: positive_def negative_def neutral_def str_def)
  have "[0] \<notin> set (map r_sentiment (rows three_reviews))"
    using z by (simp add: three_reviews_def review_love_def review_bad_def review_day_def)
  moreover have "get_reviews (Some [0]) three_reviews (Inl CharacterNotInRepertoireError)"
    and "\<not> get_reviews (Some [0]) three_reviews (Inr [])"
    by (simp_all add: get_reviews_refused refused_nul)
  moreover have "[] \<notin> {positive, negative, neutral}"
    and "[] \<notin> set (map r_sentiment (rows \<lparr>rows = [review_love], next_id = 2\<rparr>))"
    and "get_reviews (Some []) \<lparr>rows = [review_love], next_id = 2\<rparr> (Inr [review_love])"
    and "\<not> get_reviews (Some []) \<lparr>rows = [review_love], next_id = 2\<rparr> (Inr [])"
    using label_nonempty
    by (auto simp add: get_reviews_all fetch_Inr order_by_created_at_desc_def review_love_def)
  ultimately show ?thesis using z by (simp add: r)
qed

subsection \<open>Order of a listing\<close>









subsection \<open>Creation, then listing, at the routes\<close>

lemma order_by_set: "order_by_created_at_desc selected result \<Longrightarrow> set result = set selected"
  by (auto simp: order_by_created_at_desc_def dest: mset_eq_setD)

text \<open>
  What the two handlers do: after a creation that returned a review, the unfiltered
  query reads rows, and they include that review.
\<close>

lemma created_row_is_read:
  assumes "create_review lower now review st = (Inr created, st1)"
    and "get_reviews None st1 result"
  shows "\<exists>reviews. result = Inr reviews \<and> created \<in> set reviews"
proof -
  from assms(2) obtain reviews where "result = Inr reviews"
    and "order_by_created_at_desc (rows st1) reviews"
    by (auto simp: get_reviews_all fetch_cases)
  moreover from create_review_Inr [OF assms(1)] have "created \<in> set (rows st1)" by simp
  ultimately show ?thesis by (auto dest: order_by_set)
qed

text \<open>
  C2. The request \<open>{"text": t}\<close> with \<open>t = text_love\<close> at time 10 on the new store,
  then the unfiltered listing: the creation stores the review but ends in the error of
  the response model and returns no review; the listing reads the stored review, and
  the route's answer to these rows is the same error, not a list that includes it.
\<close>

theorem create_then_list_rejected:
  "post_reviews lower_basic 10 (body_of text_love) (init_db None)
     = (Inl ResponseValidationError, \<lparr>rows = [review_love], next_id = 2\<rparr>)
   \<and> get_reviews None \<lparr>rows = [review_love], next_id = 2\<rparr> (Inr [review_love])
   \<and> \<not> get_reviews None \<lparr>rows = [review_love], next_id = 2\<rparr> (Inr [])
   \<and> respond_reviews (Inr [review_love]) = Inl ResponseValidationError"
proof -
  have "create_review lower_basic 10 \<lparr>req_text = text_love\<rparr> (init_db None)
     = (Inr review_love, \<lparr>rows = [review_love], next_id = 2\<rparr>)"
    by (simp add: create_review_fresh refused_examples init_db_def analyze_examples review_love_def)
  then have "post_reviews lower_basic 10 (body_of text_love) (init_db None)
     = (Inl ResponseValidationError, \<lparr>rows = [review_love], next_id = 2\<rparr>)"
    by (simp add: post_reviews_def parse_body_of validate_dict)
  moreover have "get_reviews None \<lparr>rows = [review_love], next_id = 2\<rparr> (Inr [review_love])"
    and "\<not> get_reviews None \<lparr>rows = [review_love], next_id = 2\<rparr> (Inr [])"
    by (simp_all add: get_reviews_all fetch_Inr order_by_created_at_desc_def)
  ultimately show ?thesis by (simp add: validate_dict)
qed

text \<open>
  C10. The listing of the three reviews with the parameter \<open>sentiment\<close> given as the
  empty string: the handler reads all three rows, as it does without the parameter,
  but the route's answer to them is the error of the response model, not the rows.
\<close>

theorem empty_filter_listing_rejected:
  "get_reviews (Some []) three_reviews (Inr [review_day, review_bad, review_love])
   \<and> get_reviews None three_reviews (Inr [review_day, review_bad, review_love])
   \<and> \<not> get_reviews (Some []) three_reviews (Inl ResponseValidationError)
   \<and> respond_reviews (Inr [review_day, review_bad, review_love]) = Inl ResponseValidationError"
  by (simp add: get_reviews_all fetch_Inr listing_three fetch_def validate_dict)

end
